theory Spec2Isabelle
  imports Main "HOL-Library.Monad_Syntax"
begin

section \<open>Data model of \<^verbatim>\<open>src/index.ts\<close>\<close>

text \<open>
  The worker polls two music services, normalises each answer into an \<^verbatim>\<open>ApiResponse\<close>,
  picks one of the two and caches it. The embedding follows the source function by
  function. Everything the worker receives from outside (HTTP replies, the key-value
  stores, the clock) is an explicit argument; a JavaScript exception is a value of
  type \<open>exn\<close> on the left of a sum.
\<close>

datatype exn = TypeError | RangeError | SyntaxError | NetworkError

text \<open>\<^verbatim>\<open>interface ApiResponse\<close> (lines 51-63). An optional field is an \<open>option\<close>.\<close>

record ApiResponse =
  success :: bool
  isPlaying :: bool
  timeStamp :: string
  source :: "string option"
  duration :: "int option"
  title :: "string option"
  artist :: "string option"
  album :: "string option"
  albumImageUrl :: "string option"
  songUrl :: "string option"
  error :: "string option"

text \<open>\<^verbatim>\<open>interface AppleCacheState\<close> (lines 279-282).\<close>

record AppleCacheState =
  songId :: string
  cachedAt :: int

text \<open>The constants of lines 24-38.\<close>

definition DEFAULT_CACHE_TTL :: int where
  "DEFAULT_CACHE_TTL = 120"

definition MAX_CACHE_TTL :: int where
  "MAX_CACHE_TTL = 600"

definition HTTP_NO_CONTENT :: nat where
  "HTTP_NO_CONTENT = 204"

definition ALBUM_IMAGE_WIDTH :: string where
  "ALBUM_IMAGE_WIDTH = ''500''"

definition ALBUM_IMAGE_HEIGHT :: string where
  "ALBUM_IMAGE_HEIGHT = ''500''"

section \<open>The JavaScript \<^verbatim>\<open>Date\<close> operations the source calls\<close>

text \<open>
  A time value is a number of milliseconds since 1970-01-01T00:00:00Z, or NaN (an
  invalid date), written \<open>None\<close>. \<open>timeClip\<close> is the range check of \<^verbatim>\<open>new Date(number)\<close>.
  Formatting a date is fixed by the language standard and is modelled here; parsing a
  string is not (see \<open>parseDate\<close> below).
\<close>

definition MAX_TIME :: int where
  "MAX_TIME = 8640000000000000"

definition msPerDay :: int where
  "msPerDay = 86400000"

definition timeClip :: "int \<Rightarrow> int option" where
  "timeClip t = (if \<bar>t\<bar> \<le> MAX_TIME then Some t else None)"

text \<open>The proleptic Gregorian date (year, month, day) of a count of days since the epoch.\<close>

definition civilFromDays :: "int \<Rightarrow> int \<times> int \<times> int" where
  "civilFromDays z =
     (let z' = z + 719468;
          era = z' div 146097;
          doe = z' mod 146097;
          yoe = (doe - doe div 1460 + doe div 36524 - doe div 146096) div 365;
          doy = doe - (365 * yoe + yoe div 4 - yoe div 100);
          mp = (5 * doy + 2) div 153;
          d = doy - (153 * mp + 2) div 5 + 1;
          m = (if mp < 10 then mp + 3 else mp - 9);
          y = yoe + era * 400
      in (if m \<le> 2 then y + 1 else y, m, d))"

definition digitChar :: "int \<Rightarrow> char" where
  "digitChar d = ''0123456789'' ! nat (d mod 10)"

fun pad :: "nat \<Rightarrow> int \<Rightarrow> string" where
  "pad 0 n = []"
| "pad (Suc w) n = pad w (n div 10) @ [digitChar n]"

text \<open>
  \<^verbatim>\<open>Date.prototype.toISOString\<close>: \<^verbatim>\<open>YYYY-MM-DDTHH:mm:ss.sssZ\<close>, the year with a sign
  and six digits outside 0..9999; a \<^verbatim>\<open>RangeError\<close> on an invalid date.
\<close>

definition isoYear :: "int \<Rightarrow> string" where
  "isoYear y =
     (if 0 \<le> y \<and> y \<le> 9999 then pad 4 y
      else (if y < 0 then CHR ''-'' else CHR ''+'') # pad 6 \<bar>y\<bar>)"

fun isoDate :: "int \<times> int \<times> int \<Rightarrow> string" where
  "isoDate (y, m, d) = isoYear y @ ''-'' @ pad 2 m @ ''-'' @ pad 2 d"

definition isoTime :: "int \<Rightarrow> string" where
  "isoTime r =
     pad 2 (r div 3600000) @ '':'' @ pad 2 (r div 60000 mod 60) @ '':''
       @ pad 2 (r div 1000 mod 60) @ ''.'' @ pad 3 (r mod 1000)"

definition isoString :: "int \<Rightarrow> string" where
  "isoString t =
     isoDate (civilFromDays (t div msPerDay)) @ ''T'' @ isoTime (t mod msPerDay) @ ''Z''"

definition toISOString :: "int option \<Rightarrow> exn + string" where
  "toISOString tv = (case tv of None \<Rightarrow> Inl RangeError | Some t \<Rightarrow> Inr (isoString t))"

text \<open>The comparison \<^verbatim>\<open>>=\<close> of two numbers: false as soon as one of them is NaN.\<close>

definition js_ge :: "int option \<Rightarrow> int option \<Rightarrow> bool" where
  "js_ge x y = (case (x, y) of (Some m, Some n) \<Rightarrow> m \<ge> n | _ \<Rightarrow> False)"

section \<open>Strings\<close>

text \<open>\<^verbatim>\<open>Array.prototype.join\<close>, a number inside a template literal, and
  \<^verbatim>\<open>String.prototype.replace\<close> with a string pattern (the first occurrence only).\<close>

fun join :: "string \<Rightarrow> string list \<Rightarrow> string" where
  "join sep [] = []"
| "join sep [x] = x"
| "join sep (x # y # ys) = x @ sep @ join sep (y # ys)"

fun showNat :: "nat \<Rightarrow> string" where
  "showNat n = (if n < 10 then [digitChar (int n)]
                else showNat (n div 10) @ [digitChar (int n)])"

fun replaceFirst :: "string \<Rightarrow> string \<Rightarrow> string \<Rightarrow> string" where
  "replaceFirst pat rep [] = (if pat = [] then rep else [])"
| "replaceFirst pat rep (c # cs) =
     (if take (length pat) (c # cs) = pat then rep @ drop (length pat) (c # cs)
      else c # replaceFirst pat rep cs)"

text \<open>A value used as a condition: an optional string is falsy when it is missing or empty.\<close>

definition truthy :: "string option \<Rightarrow> bool" where
  "truthy x = (case x of None \<Rightarrow> False | Some v \<Rightarrow> v \<noteq> [])"

section \<open>What the services send\<close>

text \<open>
  A reply to an outbound \<^verbatim>\<open>fetch\<close> is either an exception (the request failed) or a
  response; \<open>json\<close> is the outcome of \<^verbatim>\<open>response.json()\<close>, an exception when the body is
  not the expected document. The payload types follow the services' documented
  schemas, restricted to the properties the source reads.
\<close>

record 'a Response =
  status :: nat
  statusText :: string
  hasBody :: bool
  json :: "exn + 'a"

definition ok :: "'a Response \<Rightarrow> bool" where
  "ok response = (200 \<le> status response \<and> status response \<le> 299)"

record SpotifyTrack =
  item_name :: string
  duration_ms :: int
  artists :: "string list"
  album_name :: string
  album_images :: "string list"
  external_url :: string

record CurrentlyPlaying =
  timestamp :: int
  is_playing :: bool
  item :: "SpotifyTrack option"

record PlayHistory =
  track :: SpotifyTrack
  played_at :: string

record AppleSong =
  song_id :: string
  durationInMillis :: int
  attr_name :: string
  artistName :: string
  albumName :: string
  artwork_url :: string
  attr_url :: string

text \<open>
  Everything outside the worker that one request meets: the reply to each outbound
  request in the order the source can issue them, the outcome of signing the Apple
  developer token, the configured user token, the clock and the date parser.
  \<open>clock n\<close> is the time that \<^verbatim>\<open>Date.now()\<close> or \<^verbatim>\<open>new Date()\<close> reads at source line
  \<open>n\<close>. \<open>parseDate s\<close> is \<^verbatim>\<open>new Date(s).getTime()\<close> for a string \<open>s\<close>, with \<open>None\<close> for NaN:
  which strings the runtime's \<^verbatim>\<open>Date\<close> accepts beyond the standard format is up to the
  runtime, so the parser is an input and nothing is assumed of it.
\<close>

record World =
  tokenReply1 :: "exn + string option Response"
  nowPlayingReply :: "exn + CurrentlyPlaying Response"
  tokenReply2 :: "exn + string option Response"
  recentReply :: "exn + PlayHistory list Response"
  signedToken :: "exn + string"
  APPLE_MUSIC_USER_TOKEN :: string
  appleReply :: "exn + AppleSong list Response"
  clock :: "nat \<Rightarrow> int"
  parseDate :: "string \<Rightarrow> int option"

datatype call = TokenRequest | NowPlayingRequest | RecentlyPlayedRequest

section \<open>The Spotify adapter\<close>

text \<open>The object literal every failure path returns: four properties, nothing else.\<close>

definition failureResponse :: "int \<Rightarrow> string \<Rightarrow> ApiResponse" where
  "failureResponse now message =
     \<lparr>success = False, isPlaying = False, timeStamp = isoString now,
      source = None, duration = None, title = None, artist = None, album = None,
      albumImageUrl = None, songUrl = None, error = Some message\<rparr>"

definition bindE :: "exn + 'a \<Rightarrow> ('a \<Rightarrow> exn + 'b) \<Rightarrow> exn + 'b" where
  "bindE m f = (case m of Inl e \<Rightarrow> Inl e | Inr x \<Rightarrow> f x)"

text \<open>\<^verbatim>\<open>getAccessToken\<close> (lines 154-172): the \<^verbatim>\<open>access_token\<close> of the token reply.\<close>

definition getAccessToken :: "exn + string option Response \<Rightarrow> exn + string option" where
  "getAccessToken reply = bindE reply (\<lambda>response. json response)"

definition spotifyStatusError :: "'a Response \<Rightarrow> string" where
  "spotifyStatusError response =
     ''Failed to fetch from Spotify. Status: '' @ showNat (status response) @ '' ''
       @ statusText response"

text \<open>\<^verbatim>\<open>getNowPlaying\<close> (lines 177-216).\<close>

definition getNowPlaying ::
  "exn + CurrentlyPlaying Response \<Rightarrow> (nat \<Rightarrow> int) \<Rightarrow> exn + ApiResponse" where
  "getNowPlaying reply clk =
     bindE reply (\<lambda>response.
       if status response = HTTP_NO_CONTENT then
         bindE (toISOString (timeClip 0)) (\<lambda>ts.
           Inr \<lparr>success = True, isPlaying = False, timeStamp = ts,
                source = None, duration = None, title = None, artist = None,
                album = None, albumImageUrl = None, songUrl = None, error = None\<rparr>)
       else if \<not> ok response then
         Inr (failureResponse (clk 195) (spotifyStatusError response))
       else
         bindE (json response) (\<lambda>song.
           case item song of
             None \<Rightarrow> Inl TypeError
           | Some it \<Rightarrow>
               bindE (toISOString (timeClip (timestamp song))) (\<lambda>ts.
                 case album_images it of
                   [] \<Rightarrow> Inl TypeError
                 | cover # _ \<Rightarrow>
                     Inr \<lparr>success = True, isPlaying = is_playing song, timeStamp = ts,
                          source = Some ''Spotify'', duration = Some (duration_ms it),
                          title = Some (item_name it),
                          artist = Some (join '', '' (artists it)),
                          album = Some (album_name it), albumImageUrl = Some cover,
                          songUrl = Some (external_url it), error = None\<rparr>)))"

text \<open>\<^verbatim>\<open>getSpotifyRecentlyPlayed\<close> (lines 218-253); \<open>parse\<close> is the date parser of the runtime.\<close>

definition getSpotifyRecentlyPlayed ::
  "(string \<Rightarrow> int option) \<Rightarrow> exn + PlayHistory list Response \<Rightarrow> (nat \<Rightarrow> int)
     \<Rightarrow> exn + ApiResponse" where
  "getSpotifyRecentlyPlayed parse reply clk =
     bindE reply (\<lambda>response.
       if \<not> ok response then
         Inr (failureResponse (clk 230) (spotifyStatusError response))
       else
         bindE (json response) (\<lambda>items.
           case items of
             [] \<Rightarrow> Inl TypeError
           | mostRecent # _ \<Rightarrow>
               bindE (toISOString (parse (played_at mostRecent))) (\<lambda>ts.
                 case album_images (track mostRecent) of
                   [] \<Rightarrow> Inl TypeError
                 | cover # _ \<Rightarrow>
                     Inr \<lparr>success = True, isPlaying = False, timeStamp = ts,
                          source = Some ''Spotify'',
                          duration = Some (duration_ms (track mostRecent)),
                          title = Some (item_name (track mostRecent)),
                          artist = Some (join '', '' (artists (track mostRecent))),
                          album = Some (album_name (track mostRecent)),
                          albumImageUrl = Some cover,
                          songUrl = Some (external_url (track mostRecent)),
                          error = None\<rparr>)))"

definition tokenFailure :: "int \<Rightarrow> ApiResponse" where
  "tokenFailure now = failureResponse now ''Could not get access token for Spotify.''"

text \<open>
  Lines 139-148 of \<^verbatim>\<open>getSpotifyData\<close>, the path taken when the now-playing answer has
  no title: a second token request, then the recently-played query. The first
  component lists the outbound requests in the order they were issued; the second is
  the returned value, or the exception that leaves the function.
\<close>

definition recentlyPlayedFallback :: "World \<Rightarrow> call list \<times> (exn + ApiResponse)" where
  "recentlyPlayedFallback w =
     (case getAccessToken (tokenReply2 w) of
        Inl e \<Rightarrow> ([TokenRequest], Inl e)
      | Inr newAccessToken \<Rightarrow>
          if \<not> truthy newAccessToken
          then ([TokenRequest], Inr (tokenFailure (clock w 144)))
          else ([TokenRequest, RecentlyPlayedRequest],
                getSpotifyRecentlyPlayed (parseDate w) (recentReply w) (clock w)))"

text \<open>\<^verbatim>\<open>getSpotifyData\<close> (lines 127-149). The function has no \<^verbatim>\<open>try\<close>: an exception of
  a callee leaves it.\<close>

definition getSpotifyData :: "World \<Rightarrow> call list \<times> (exn + ApiResponse)" where
  "getSpotifyData w =
     (case getAccessToken (tokenReply1 w) of
        Inl e \<Rightarrow> ([TokenRequest], Inl e)
      | Inr accessToken \<Rightarrow>
          if \<not> truthy accessToken then ([TokenRequest], Inr (tokenFailure (clock w 131)))
          else
            (case getNowPlaying (nowPlayingReply w) (clock w) of
               Inl e \<Rightarrow> ([TokenRequest, NowPlayingRequest], Inl e)
             | Inr spotifynowPlaying \<Rightarrow>
                 if truthy (title spotifynowPlaying)
                 then ([TokenRequest, NowPlayingRequest], Inr spotifynowPlaying)
                 else ([TokenRequest, NowPlayingRequest] @ fst (recentlyPlayedFallback w),
                       snd (recentlyPlayedFallback w))))"

section \<open>The Apple Music adapter\<close>

text \<open>\<^verbatim>\<open>getAppleDeveloperToken\<close> (lines 258-277): \<^verbatim>\<open>null\<close> when the signing throws.\<close>

definition getAppleDeveloperToken :: "exn + string \<Rightarrow> string option" where
  "getAppleDeveloperToken signing = (case signing of Inl e \<Rightarrow> None | Inr jwt \<Rightarrow> Some jwt)"

text \<open>\<^verbatim>\<open>formatAppleSong\<close> (lines 356-369).\<close>

definition formatAppleSong :: "AppleSong \<Rightarrow> bool \<Rightarrow> int \<Rightarrow> exn + ApiResponse" where
  "formatAppleSong song isLive ts =
     bindE (toISOString (timeClip ts)) (\<lambda>iso.
       Inr \<lparr>success = True, isPlaying = isLive, timeStamp = iso,
            source = Some ''Apple Music'', duration = Some (durationInMillis song),
            title = Some (attr_name song), artist = Some (artistName song),
            album = Some (albumName song),
            albumImageUrl = Some (replaceFirst ''{h}'' ALBUM_IMAGE_HEIGHT
                                   (replaceFirst ''{w}'' ALBUM_IMAGE_WIDTH (artwork_url song))),
            songUrl = Some (attr_url song), error = None\<rparr>)"

text \<open>
  The body of the \<^verbatim>\<open>try\<close> block of \<^verbatim>\<open>getAppleMusicData\<close> from line 309 on (the liveness
  inference): the value returned or the exception thrown, and the content of
  \<^verbatim>\<open>APPLE_STATE_CACHE\<close> afterwards. A write that happened before an exception stays.
\<close>

definition inferLiveness ::
  "AppleSong list Response \<Rightarrow> (nat \<Rightarrow> int) \<Rightarrow> AppleCacheState option
     \<Rightarrow> (exn + ApiResponse) \<times> AppleCacheState option" where
  "inferLiveness response clk cachedState =
     (case json response of
        Inl e \<Rightarrow> (Inl e, cachedState)
      | Inr [] \<Rightarrow> (Inl TypeError, cachedState)
      | Inr (lastSong # _) \<Rightarrow>
          (let songId = song_id lastSong;
               oneSongAgo = clk 317 - durationInMillis lastSong
           in case cachedState of
                Some st \<Rightarrow>
                  if AppleCacheState.songId st = songId then
                    (if cachedAt st > oneSongAgo
                     then (formatAppleSong lastSong True (cachedAt st), cachedState)
                     else (formatAppleSong lastSong False (cachedAt st), cachedState))
                  else
                    (formatAppleSong lastSong True (clk 343),
                     Some \<lparr>songId = songId, cachedAt = clk 341\<rparr>)
              | None \<Rightarrow>
                  (formatAppleSong lastSong True (clk 343),
                   Some \<lparr>songId = songId, cachedAt = clk 341\<rparr>)))"

definition appleStatusError :: "'a Response \<Rightarrow> string" where
  "appleStatusError response =
     ''Failed to fetch from Apple Music. Status: '' @ showNat (status response) @ '' ''
       @ statusText response"

text \<open>\<^verbatim>\<open>getAppleMusicData\<close> (lines 284-354).\<close>

definition getAppleMusicData ::
  "World \<Rightarrow> AppleCacheState option \<Rightarrow> ApiResponse \<times> AppleCacheState option" where
  "getAppleMusicData w cachedState =
     (if \<not> truthy (getAppleDeveloperToken (signedToken w))
         \<or> \<not> truthy (Some (APPLE_MUSIC_USER_TOKEN w))
      then (failureResponse (clock w 287) ''Could not generate Apple Developer Token.'',
            cachedState)
      else
        (case appleReply w of
           Inl e \<Rightarrow>
             (failureResponse (clock w 350)
                ''Failed to fetch from Apple Music. Is the User Token valid?'', cachedState)
         | Inr response \<Rightarrow>
             if status response > HTTP_NO_CONTENT \<or> \<not> hasBody response
             then (failureResponse (clock w 303) (appleStatusError response), cachedState)
             else
               (case inferLiveness response (clock w) cachedState of
                  (Inl e, st') \<Rightarrow>
                    (failureResponse (clock w 350)
                       ''Failed to fetch from Apple Music. Is the User Token valid?'', st')
                | (Inr r, st') \<Rightarrow> (r, st'))))"

section \<open>The request handler \<^verbatim>\<open>fetch\<close>: choosing between the two answers, and the cache\<close>

text \<open>
  \<^verbatim>\<open>x.timeStamp ? new Date(x.timeStamp).getTime() : 0\<close> (lines 99-100). The field is a
  string, so it is falsy exactly when it is empty.
\<close>

definition stampTime :: "(string \<Rightarrow> int option) \<Rightarrow> string \<Rightarrow> int option" where
  "stampTime parse s = (if s = [] then Some 0 else parse s)"

text \<open>Lines 90-108 of \<^verbatim>\<open>fetch\<close>: the value assigned to \<^verbatim>\<open>responseData\<close>; \<open>parse\<close> is the
  date parser of the runtime.\<close>

definition reconcile ::
  "(string \<Rightarrow> int option) \<Rightarrow> ApiResponse \<Rightarrow> ApiResponse \<Rightarrow> ApiResponse" where
  "reconcile parse spotify apple =
     (if isPlaying spotify then spotify
      else if isPlaying apple then apple
      else if js_ge (stampTime parse (timeStamp spotify)) (stampTime parse (timeStamp apple))
        then spotify
      else apple)"

text \<open>Line 115: the \<^verbatim>\<open>expirationTtl\<close> of the cache write.\<close>

definition expirationTtl :: "ApiResponse \<Rightarrow> int" where
  "expirationTtl responseData =
     (case duration responseData of
        Some d \<Rightarrow> min (d div 1000) MAX_CACHE_TTL
      | None \<Rightarrow> DEFAULT_CACHE_TTL)"

text \<open>
  The two key-value stores. An entry of \<^verbatim>\<open>RESULT_CACHE\<close> is the stored answer with the
  \<^verbatim>\<open>expirationTtl\<close> it was written with; \<^verbatim>\<open>APPLE_STATE_CACHE\<close> holds the last observed
  Apple Music song, if any.
\<close>

record CacheEntry =
  cachedValue :: ApiResponse
  ttl :: int

record Stores =
  RESULT_CACHE :: "CacheEntry option"
  APPLE_STATE_CACHE :: "AppleCacheState option"

text \<open>The HTTP response of the worker: its body and its \<^verbatim>\<open>X-Cache-Status\<close> header.\<close>

record Reply =
  body :: ApiResponse
  cacheStatus :: string

definition NO_CACHE_VALUE :: string where
  "NO_CACHE_VALUE = ''true''"

text \<open>
  Lines 82-122 of \<^verbatim>\<open>fetch\<close>: both adapters run, the answer is chosen, and it is written
  to the cache when it is a success. An exception of the Spotify adapter rejects
  \<^verbatim>\<open>Promise.all\<close> and leaves the handler.
\<close>

definition freshAnswer :: "World \<Rightarrow> Stores \<Rightarrow> (exn + Reply) \<times> Stores" where
  "freshAnswer w kv =
     (let spotify = snd (getSpotifyData w);
          (apple, appleState) = getAppleMusicData w (APPLE_STATE_CACHE kv)
      in case spotify of
           Inl e \<Rightarrow> (Inl e, kv\<lparr>APPLE_STATE_CACHE := appleState\<rparr>)
         | Inr spotify \<Rightarrow>
             (let responseData = reconcile (parseDate w) spotify apple
              in (Inr \<lparr>body = responseData, cacheStatus = ''MISS''\<rparr>,
                  \<lparr>RESULT_CACHE =
                     (if success responseData
                      then Some \<lparr>cachedValue = responseData,
                                 ttl = expirationTtl responseData\<rparr>
                      else RESULT_CACHE kv),
                   APPLE_STATE_CACHE = appleState\<rparr>)))"

text \<open>
  \<^verbatim>\<open>fetch\<close> (lines 66-123). The first argument is the value of the \<^verbatim>\<open>noCache\<close> query
  parameter of the request, if it has one.
\<close>

definition fetch :: "string option \<Rightarrow> World \<Rightarrow> Stores \<Rightarrow> (exn + Reply) \<times> Stores" where
  "fetch noCache w kv =
     (if noCache = Some NO_CACHE_VALUE then freshAnswer w (kv\<lparr>RESULT_CACHE := None\<rparr>)
      else
        (case RESULT_CACHE kv of
           Some cachedResult \<Rightarrow>
             (Inr \<lparr>body = cachedValue cachedResult, cacheStatus = ''HIT''\<rparr>, kv)
         | None \<Rightarrow> freshAnswer w kv))"

section \<open>Properties of an answer, and sample inputs\<close>

text \<open>An answer without descriptive fields: no source, duration, title, artist, album,
  image or link.\<close>

definition bare :: "ApiResponse \<Rightarrow> bool" where
  "bare r = (source r = None \<and> duration r = None \<and> title r = None \<and> artist r = None
             \<and> album r = None \<and> albumImageUrl r = None \<and> songUrl r = None)"

text \<open>Sample answers, services' payloads and worlds for the concrete instances below.\<close>

definition sample :: "bool \<Rightarrow> bool \<Rightarrow> string \<Rightarrow> int option \<Rightarrow> ApiResponse" where
  "sample good playing stamp dur =
     \<lparr>success = good, isPlaying = playing, timeStamp = stamp, source = None,
      duration = dur, title = None, artist = None, album = None, albumImageUrl = None,
      songUrl = None, error = None\<rparr>"

definition okResponse :: "'a \<Rightarrow> 'a Response" where
  "okResponse payload = \<lparr>status = 200, statusText = ''OK'', hasBody = True, json = Inr payload\<rparr>"

definition statusResponse :: "nat \<Rightarrow> string \<Rightarrow> 'a Response" where
  "statusResponse code text =
     \<lparr>status = code, statusText = text, hasBody = False, json = Inl SyntaxError\<rparr>"

definition someTrack :: SpotifyTrack where
  "someTrack =
     \<lparr>item_name = ''So What'', duration_ms = 180000, artists = [''Miles Davis''],
      album_name = ''Kind of Blue'', album_images = [''https://i.scdn.co/image/1''],
      external_url = ''https://open.spotify.com/track/1''\<rparr>"

definition someSong :: AppleSong where
  "someSong =
     \<lparr>song_id = ''T1'', durationInMillis = 200000, attr_name = ''Naima'',
      artistName = ''John Coltrane'', albumName = ''Giant Steps'',
      artwork_url = ''https://img/{w}x{h}.jpg'', attr_url = ''https://music.apple.com/1''\<rparr>"

text \<open>
  A date parser for the sample worlds. It reads the one shape that the language
  standard fixes and that \<open>toISOString\<close> writes, \<^verbatim>\<open>YYYY-MM-DDTHH:mm:ss.sssZ\<close> with the
  milliseconds optional, and the samples apply it to strings of that shape only. It
  is an example of a parser, not the parser of the runtime: the adapters and the
  handler take theirs from the world.
\<close>

definition daysFromCivil :: "int \<Rightarrow> int \<Rightarrow> int \<Rightarrow> int" where
  "daysFromCivil y m d =
     (let y' = (if m \<le> 2 then y - 1 else y);
          era = y' div 400;
          yoe = y' mod 400;
          doy = (153 * (if m > 2 then m - 3 else m + 9) + 2) div 5 + d - 1;
          doe = yoe * 365 + yoe div 4 - yoe div 100 + doy
      in era * 146097 + doe - 719468)"

definition digitOf :: "char \<Rightarrow> int option" where
  "digitOf c = map_of
     [(CHR ''0'', 0), (CHR ''1'', 1), (CHR ''2'', 2), (CHR ''3'', 3), (CHR ''4'', 4),
      (CHR ''5'', 5), (CHR ''6'', 6), (CHR ''7'', 7), (CHR ''8'', 8), (CHR ''9'', 9)] c"

fun numOf :: "int \<Rightarrow> string \<Rightarrow> int option" where
  "numOf acc [] = Some acc"
| "numOf acc (c # cs) =
     (case digitOf c of None \<Rightarrow> None | Some d \<Rightarrow> numOf (10 * acc + d) cs)"

definition field :: "nat \<Rightarrow> nat \<Rightarrow> string \<Rightarrow> int option" where
  "field i n s =
     (let cs = take n (drop i s) in if length cs = n then numOf 0 cs else None)"

definition parseRest :: "int \<Rightarrow> string \<Rightarrow> int option" where
  "parseRest y rest =
     do {
       mo \<leftarrow> field 1 2 rest;
       d \<leftarrow> field 4 2 rest;
       h \<leftarrow> field 7 2 rest;
       mi \<leftarrow> field 10 2 rest;
       se \<leftarrow> field 13 2 rest;
       ms \<leftarrow> (if drop 15 rest = ''Z'' then Some 0
              else if take 1 (drop 15 rest) = ''.'' \<and> drop 19 rest = ''Z''
                then field 16 3 rest
              else None);
       if take 1 rest = ''-'' \<and> take 1 (drop 3 rest) = ''-''
          \<and> take 1 (drop 6 rest) = ''T'' \<and> take 1 (drop 9 rest) = '':''
          \<and> take 1 (drop 12 rest) = '':''
          \<and> 1 \<le> mo \<and> mo \<le> 12 \<and> 1 \<le> d \<and> d \<le> 31
          \<and> (h < 24 \<or> (h = 24 \<and> mi = 0 \<and> se = 0 \<and> ms = 0)) \<and> mi < 60 \<and> se < 60
       then timeClip (daysFromCivil y mo d * msPerDay
                        + ((h * 60 + mi) * 60 + se) * 1000 + ms)
       else None
     }"

definition isoParse :: "string \<Rightarrow> int option" where
  "isoParse s =
     (case s of
        [] \<Rightarrow> None
      | c # cs \<Rightarrow>
          if c = CHR ''+'' then
            do { y \<leftarrow> field 0 6 cs; parseRest y (drop 6 cs) }
          else if c = CHR ''-'' then
            do { y \<leftarrow> field 0 6 cs;
                 if y = 0 then None else parseRest (- y) (drop 6 cs) }
          else
            do { y \<leftarrow> field 0 4 s; parseRest y (drop 4 s) })"

text \<open>A world in which every service answers: the given replies to the now-playing and
  recently-played queries, a token from both token requests, one Apple Music song, and
  a clock that reads \<open>now\<close> at every line, with the sample parser.\<close>

definition world ::
  "CurrentlyPlaying Response \<Rightarrow> PlayHistory list Response \<Rightarrow> int \<Rightarrow> World" where
  "world np recent now =
     \<lparr>tokenReply1 = Inr (okResponse (Some ''token-1'')), nowPlayingReply = Inr np,
      tokenReply2 = Inr (okResponse (Some ''token-2'')), recentReply = Inr recent,
      signedToken = Inr ''jwt'', APPLE_MUSIC_USER_TOKEN = ''user-token'',
      appleReply = Inr (okResponse [someSong]), clock = (\<lambda>line. now),
      parseDate = isoParse\<rparr>"

text \<open>The same world with a clock that has moved on by 250 ms when line 343 reads it.\<close>

definition movingClock :: "nat \<Rightarrow> int" where
  "movingClock line = (if line = 343 then 1704067300250 else 1704067300000)"

definition laterWorld :: "CurrentlyPlaying Response \<Rightarrow> PlayHistory list Response \<Rightarrow> World" where
  "laterWorld np recent = (world np recent 1704067300000)\<lparr>clock := movingClock\<rparr>"

definition playingNow :: "CurrentlyPlaying Response" where
  "playingNow =
     okResponse \<lparr>timestamp = 1704067200000, is_playing = True, item = Some someTrack\<rparr>"

definition noItem :: "CurrentlyPlaying Response" where
  "noItem = okResponse \<lparr>timestamp = 1704067200000, is_playing = False, item = None\<rparr>"

definition recentOne :: "PlayHistory list Response" where
  "recentOne = okResponse [\<lparr>track = someTrack, played_at = ''2024-01-01T00:00:00.000Z''\<rparr>]"

definition noToken :: "string option Response" where
  "noToken = \<lparr>status = 400, statusText = ''Bad Request'', hasBody = True, json = Inr None\<rparr>"

definition spotifyAnswer :: "bool \<Rightarrow> ApiResponse" where
  "spotifyAnswer playing =
     \<lparr>success = True, isPlaying = playing, timeStamp = ''2024-01-01T00:00:00.000Z'',
      source = Some ''Spotify'', duration = Some 180000, title = Some ''So What'',
      artist = Some ''Miles Davis'', album = Some ''Kind of Blue'',
      albumImageUrl = Some ''https://i.scdn.co/image/1'',
      songUrl = Some ''https://open.spotify.com/track/1'', error = None\<rparr>"

definition appleAnswer :: "bool \<Rightarrow> string \<Rightarrow> ApiResponse" where
  "appleAnswer playing stamp =
     \<lparr>success = True, isPlaying = playing, timeStamp = stamp,
      source = Some ''Apple Music'', duration = Some 200000, title = Some ''Naima'',
      artist = Some ''John Coltrane'', album = Some ''Giant Steps'',
      albumImageUrl = Some ''https://img/500x500.jpg'',
      songUrl = Some ''https://music.apple.com/1'', error = None\<rparr>"

text \<open>The object of line 187, with \<^verbatim>\<open>new Date(0).toISOString()\<close> written out.\<close>

definition nothingPlaying :: ApiResponse where
  "nothingPlaying =
     \<lparr>success = True, isPlaying = False, timeStamp = ''1970-01-01T00:00:00.000Z'',
      source = None, duration = None, title = None, artist = None, album = None,
      albumImageUrl = None, songUrl = None, error = None\<rparr>"

definition lastSeen :: AppleCacheState where
  "lastSeen = \<lparr>songId = ''T1'', cachedAt = 1704067200000\<rparr>"

definition emptyStores :: Stores where
  "emptyStores = \<lparr>RESULT_CACHE = None, APPLE_STATE_CACHE = None\<rparr>"

section \<open>Evaluating the date operations\<close>

lemma isoParse_jan1: "isoParse ''2024-01-01T00:00:00Z'' = Some 1704067200000"
  by code_simp

lemma isoParse_jan2: "isoParse ''2024-01-02T00:00:00Z'' = Some 1704153600000"
  by code_simp


lemma isoString_epoch: "isoString 0 = ''1970-01-01T00:00:00.000Z''"
  by code_simp

lemma isoString_jan1: "isoString 1704067200000 = ''2024-01-01T00:00:00.000Z''"
  by code_simp

lemma isoString_jan1_later: "isoString 1704067300000 = ''2024-01-01T00:01:40.000Z''"
  by code_simp

lemma isoString_jan1_moved: "isoString 1704067300250 = ''2024-01-01T00:01:40.250Z''"
  by code_simp


section \<open>Choosing between the two answers\<close>

text \<open>
  Claim C2. When the Spotify answer says it is playing, the chosen answer is the
  Spotify answer, whatever the Apple Music answer holds (also when that one is playing
  too and carries a later time stamp); when Spotify is not playing and Apple Music is,
  the chosen answer is the Apple Music answer.
\<close>

theorem reconcile_priority:
  "(isPlaying a \<longrightarrow> reconcile parse a b = a)
   \<and> (\<not> isPlaying a \<and> isPlaying b \<longrightarrow> reconcile parse a b = b)"
  by (simp add: reconcile_def)

theorem reconcile_priority_witness:
  "isPlaying (sample True True ''2024-01-01T00:00:00Z'' None)
   \<and> isPlaying (sample True True ''2024-01-02T00:00:00Z'' None)
   \<and> isoParse ''2024-01-01T00:00:00Z'' = Some 1704067200000
   \<and> isoParse ''2024-01-02T00:00:00Z'' = Some 1704153600000
   \<and> reconcile isoParse (sample True True ''2024-01-01T00:00:00Z'' None)
        (sample True True ''2024-01-02T00:00:00Z'' None)
      = sample True True ''2024-01-01T00:00:00Z'' None
   \<and> \<not> isPlaying (sample True False ''2024-01-02T00:00:00Z'' None)
   \<and> reconcile isoParse (sample True False ''2024-01-02T00:00:00Z'' None)
        (sample True True ''2024-01-01T00:00:00Z'' None)
      = sample True True ''2024-01-01T00:00:00Z'' None"
proof -
  have p1: "isPlaying (sample True True ''2024-01-01T00:00:00Z'' None)"
    and p2: "isPlaying (sample True True ''2024-01-02T00:00:00Z'' None)"
    and p3: "\<not> isPlaying (sample True False ''2024-01-02T00:00:00Z'' None)"
    by (simp_all add: sample_def)
  have r1: "reconcile isoParse (sample True True ''2024-01-01T00:00:00Z'' None)
              (sample True True ''2024-01-02T00:00:00Z'' None)
            = sample True True ''2024-01-01T00:00:00Z'' None"
    using reconcile_priority [of "sample True True ''2024-01-01T00:00:00Z'' None" isoParse
        "sample True True ''2024-01-02T00:00:00Z'' None"] p1 by blast
  have r2: "reconcile isoParse (sample True False ''2024-01-02T00:00:00Z'' None)
              (sample True True ''2024-01-01T00:00:00Z'' None)
            = sample True True ''2024-01-01T00:00:00Z'' None"
    using reconcile_priority [of "sample True False ''2024-01-02T00:00:00Z'' None" isoParse
        "sample True True ''2024-01-01T00:00:00Z'' None"] p1 p3 by blast
  show ?thesis
    using p1 p2 p3 r1 r2 isoParse_jan1 isoParse_jan2 by blast
qed

text \<open>
  The time stamp of every answer an adapter returns was written by \<open>toISOString\<close>: it
  is never empty, and it is in the one format every \<^verbatim>\<open>Date\<close> parses.
\<close>

lemma parseDate_world: "parseDate (world np recent now) = isoParse"
  by (simp add: world_def)











text \<open>
  What lines 99-101 would do with a non-empty stamp that did not parse: its time is NaN,
  \<^verbatim>\<open>>=\<close> is false, and the Apple Music answer is chosen. No answer of an adapter has
  such a stamp.
\<close>

lemma reconcile_NaN:
  assumes "\<not> isPlaying a" and "\<not> isPlaying b"
    and "stampTime parse (timeStamp a) = None \<or> stampTime parse (timeStamp b) = None"
  shows "reconcile parse a b = b"
  using assms by (auto simp: reconcile_def js_ge_def split: option.splits)

section \<open>Liveness inference for Apple Music\<close>

text \<open>
  The service only tells which song was played last. The adapter remembers the song
  and the time it first saw it, and takes the song for still playing while less than
  the song's length has passed since.
\<close>

lemma formatAppleSong_valid:
  assumes "\<bar>ts\<bar> \<le> MAX_TIME"
  shows "\<exists>r. formatAppleSong song live ts = Inr r \<and> success r \<and> isPlaying r = live
           \<and> timeStamp r = isoString ts"
  using assms by (simp add: formatAppleSong_def bindE_def toISOString_def timeClip_def)

lemma formatAppleSong_success: "formatAppleSong song live ts = Inr r \<Longrightarrow> success r"
  by (auto simp: formatAppleSong_def bindE_def split: sum.splits)

lemma inferLiveness_same:
  assumes "json response = Inr (lastSong # rest)" and "songId st = song_id lastSong"
  shows "inferLiveness response clk (Some st) =
           (formatAppleSong lastSong (clk 317 - durationInMillis lastSong < cachedAt st)
              (cachedAt st), Some st)"
  using assms by (simp add: inferLiveness_def)

lemma inferLiveness_new:
  assumes "json response = Inr (lastSong # rest)"
    and "\<forall>st. cached = Some st \<longrightarrow> songId st \<noteq> song_id lastSong"
  shows "inferLiveness response clk cached =
           (formatAppleSong lastSong True (clk 343),
            Some \<lparr>songId = song_id lastSong, cachedAt = clk 341\<rparr>)"
  using assms by (cases cached) (simp_all add: inferLiveness_def)

lemma inferLiveness_writes:
  assumes "snd (inferLiveness response clk cached) \<noteq> cached"
  shows "\<exists>lastSong rest. json response = Inr (lastSong # rest)
           \<and> (\<forall>st. cached = Some st \<longrightarrow> songId st \<noteq> song_id lastSong)"
  using assms
  by (auto simp: inferLiveness_def Let_def split: sum.splits list.splits option.splits if_splits)

lemma getAppleMusicData_engine:
  assumes "truthy (getAppleDeveloperToken (signedToken w))"
    and "APPLE_MUSIC_USER_TOKEN w \<noteq> []"
    and "appleReply w = Inr response"
    and "status response \<le> HTTP_NO_CONTENT" and "hasBody response"
    and "inferLiveness response (clock w) cached = (Inr r, st')"
  shows "getAppleMusicData w cached = (r, st')"
  using assms by (simp add: getAppleMusicData_def truthy_def)

lemma getAppleMusicData_writes:
  assumes "snd (getAppleMusicData w cached) \<noteq> cached"
  shows "\<exists>response. appleReply w = Inr response
           \<and> snd (inferLiveness response (clock w) cached) \<noteq> cached"
  using assms
  by (auto simp: getAppleMusicData_def split: sum.splits if_splits prod.splits)

lemmas sample_defs =
  world_def okResponse_def someSong_def lastSeen_def truthy_def getAppleDeveloperToken_def
  HTTP_NO_CONTENT_def MAX_TIME_def

text \<open>
  Claim C1. A request that reaches the inference (both tokens present, a reply with a
  body and a status up to 204, a first song in the reply) and finds the remembered
  song equal to the current one: the answer is a success whose \<open>isPlaying\<close> says
  whether the remembered time is strictly later than the clock reading of line 317
  minus the song's length, and whose time stamp is the remembered time in both cases;
  the remembered state is left as it was. The remembered time is a valid time value,
  as every value the adapter itself stores is.
\<close>

theorem same_track_liveness:
  assumes "truthy (getAppleDeveloperToken (signedToken w))"
    and "APPLE_MUSIC_USER_TOKEN w \<noteq> []"
    and "appleReply w = Inr response"
    and "status response \<le> HTTP_NO_CONTENT" and "hasBody response"
    and "json response = Inr (lastSong # rest)"
    and "songId st = song_id lastSong"
    and "\<bar>cachedAt st\<bar> \<le> MAX_TIME"
  shows "snd (getAppleMusicData w (Some st)) = Some st
         \<and> success (fst (getAppleMusicData w (Some st)))
         \<and> isPlaying (fst (getAppleMusicData w (Some st)))
             = (cachedAt st > clock w 317 - durationInMillis lastSong)
         \<and> timeStamp (fst (getAppleMusicData w (Some st))) = isoString (cachedAt st)"
proof -
  obtain r where r: "formatAppleSong lastSong
        (clock w 317 - durationInMillis lastSong < cachedAt st) (cachedAt st) = Inr r"
      "success r" "isPlaying r = (clock w 317 - durationInMillis lastSong < cachedAt st)"
      "timeStamp r = isoString (cachedAt st)"
    using formatAppleSong_valid [OF assms(8)] by blast
  have "inferLiveness response (clock w) (Some st) = (Inr r, Some st)"
    using inferLiveness_same [OF assms(6,7)] r(1) by simp
  then have "getAppleMusicData w (Some st) = (r, Some st)"
    using assms(1-5) by (rule getAppleMusicData_engine [rotated -1])
  then show ?thesis using r by simp
qed

theorem same_track_liveness_witness:
  "snd (getAppleMusicData (world playingNow recentOne 1704067300000) (Some lastSeen))
     = Some lastSeen
   \<and> isPlaying (fst (getAppleMusicData (world playingNow recentOne 1704067300000)
                      (Some lastSeen)))
   \<and> timeStamp (fst (getAppleMusicData (world playingNow recentOne 1704067300000)
                      (Some lastSeen))) = ''2024-01-01T00:00:00.000Z''
   \<and> snd (getAppleMusicData (world playingNow recentOne 1704067500000) (Some lastSeen))
     = Some lastSeen
   \<and> \<not> isPlaying (fst (getAppleMusicData (world playingNow recentOne 1704067500000)
                        (Some lastSeen)))
   \<and> timeStamp (fst (getAppleMusicData (world playingNow recentOne 1704067500000)
                      (Some lastSeen))) = ''2024-01-01T00:00:00.000Z''"
proof -
  have within:
    "snd (getAppleMusicData (world playingNow recentOne 1704067300000) (Some lastSeen))
       = Some lastSeen
     \<and> success (fst (getAppleMusicData (world playingNow recentOne 1704067300000)
                      (Some lastSeen)))
     \<and> isPlaying (fst (getAppleMusicData (world playingNow recentOne 1704067300000)
                        (Some lastSeen)))
         = (cachedAt lastSeen > clock (world playingNow recentOne 1704067300000) 317
                                  - durationInMillis someSong)
     \<and> timeStamp (fst (getAppleMusicData (world playingNow recentOne 1704067300000)
                        (Some lastSeen))) = isoString (cachedAt lastSeen)"
    by (rule same_track_liveness [of _ "okResponse [someSong]" someSong "[]"])
       (simp_all add: sample_defs)
  have past:
    "snd (getAppleMusicData (world playingNow recentOne 1704067500000) (Some lastSeen))
       = Some lastSeen
     \<and> success (fst (getAppleMusicData (world playingNow recentOne 1704067500000)
                      (Some lastSeen)))
     \<and> isPlaying (fst (getAppleMusicData (world playingNow recentOne 1704067500000)
                        (Some lastSeen)))
         = (cachedAt lastSeen > clock (world playingNow recentOne 1704067500000) 317
                                  - durationInMillis someSong)
     \<and> timeStamp (fst (getAppleMusicData (world playingNow recentOne 1704067500000)
                        (Some lastSeen))) = isoString (cachedAt lastSeen)"
    by (rule same_track_liveness [of _ "okResponse [someSong]" someSong "[]"])
       (simp_all add: sample_defs)
  have "cachedAt lastSeen = 1704067200000" "durationInMillis someSong = 200000"
      "clock (world playingNow recentOne 1704067300000) 317 = 1704067300000"
      "clock (world playingNow recentOne 1704067500000) 317 = 1704067500000"
    by (simp_all add: sample_defs)
  with within past show ?thesis
    by (simp add: isoString_jan1)
qed

text \<open>
  Claim C4, as the code has it. A request that reaches the inference and finds nothing
  remembered, or another song: the state becomes the current song with the clock
  reading taken when the record is built (line 341), and the answer is a playing
  success stamped with the clock reading taken at the return (line 343), after the
  awaited write; these are two readings of the clock, and nothing makes them equal.
  Second part: whenever a request changes the state at all, it was such a request, and
  the new state is that one.
\<close>

theorem new_track_liveness:
  "(truthy (getAppleDeveloperToken (signedToken w)) \<and> APPLE_MUSIC_USER_TOKEN w \<noteq> []
      \<and> appleReply w = Inr response \<and> status response \<le> HTTP_NO_CONTENT
      \<and> hasBody response \<and> json response = Inr (lastSong # rest)
      \<and> (\<forall>st. cached = Some st \<longrightarrow> songId st \<noteq> song_id lastSong)
      \<and> \<bar>clock w 343\<bar> \<le> MAX_TIME
    \<longrightarrow> snd (getAppleMusicData w cached)
          = Some \<lparr>songId = song_id lastSong, cachedAt = clock w 341\<rparr>
        \<and> success (fst (getAppleMusicData w cached))
        \<and> isPlaying (fst (getAppleMusicData w cached))
        \<and> timeStamp (fst (getAppleMusicData w cached)) = isoString (clock w 343))
   \<and> (snd (getAppleMusicData v old) \<noteq> old
    \<longrightarrow> (\<exists>reply song others. appleReply v = Inr reply \<and> json reply = Inr (song # others)
          \<and> (\<forall>st. old = Some st \<longrightarrow> songId st \<noteq> song_id song)
          \<and> snd (getAppleMusicData v old)
              = Some \<lparr>songId = song_id song, cachedAt = clock v 341\<rparr>))"
proof (intro conjI impI)
  assume a: "truthy (getAppleDeveloperToken (signedToken w)) \<and> APPLE_MUSIC_USER_TOKEN w \<noteq> []
      \<and> appleReply w = Inr response \<and> status response \<le> HTTP_NO_CONTENT
      \<and> hasBody response \<and> json response = Inr (lastSong # rest)
      \<and> (\<forall>st. cached = Some st \<longrightarrow> songId st \<noteq> song_id lastSong)
      \<and> \<bar>clock w 343\<bar> \<le> MAX_TIME"
  then obtain r where r: "formatAppleSong lastSong True (clock w 343) = Inr r"
      "success r" "isPlaying r = True" "timeStamp r = isoString (clock w 343)"
    using formatAppleSong_valid [of "clock w 343" lastSong True] by blast
  have "inferLiveness response (clock w) cached
          = (Inr r, Some \<lparr>songId = song_id lastSong, cachedAt = clock w 341\<rparr>)"
    using inferLiveness_new [of response lastSong rest cached "clock w"] a r(1) by simp
  then have g: "getAppleMusicData w cached
          = (r, Some \<lparr>songId = song_id lastSong, cachedAt = clock w 341\<rparr>)"
    using a by (intro getAppleMusicData_engine) simp_all
  show "snd (getAppleMusicData w cached)
          = Some \<lparr>songId = song_id lastSong, cachedAt = clock w 341\<rparr>"
    and "success (fst (getAppleMusicData w cached))"
    and "isPlaying (fst (getAppleMusicData w cached))"
    and "timeStamp (fst (getAppleMusicData w cached)) = isoString (clock w 343)"
    using g r by simp_all
next
  assume ch: "snd (getAppleMusicData v old) \<noteq> old"
  then obtain reply where reply: "appleReply v = Inr reply"
      "snd (inferLiveness reply (clock v) old) \<noteq> old"
    using getAppleMusicData_writes by blast
  from inferLiveness_writes [OF reply(2)]
  obtain song others where song: "json reply = Inr (song # others)"
      "\<forall>st. old = Some st \<longrightarrow> songId st \<noteq> song_id song"
    by blast
  have il: "snd (inferLiveness reply (clock v) old)
          = Some \<lparr>songId = song_id song, cachedAt = clock v 341\<rparr>"
    using inferLiveness_new [OF song] by simp
  have "snd (getAppleMusicData v old) = old
        \<or> snd (getAppleMusicData v old) = snd (inferLiveness reply (clock v) old)"
    using reply(1)
    by (auto simp: getAppleMusicData_def split: sum.splits if_splits prod.splits)
  with ch il have "snd (getAppleMusicData v old)
          = Some \<lparr>songId = song_id song, cachedAt = clock v 341\<rparr>"
    by simp
  with reply(1) song
  show "\<exists>reply song others. appleReply v = Inr reply \<and> json reply = Inr (song # others)
          \<and> (\<forall>st. old = Some st \<longrightarrow> songId st \<noteq> song_id song)
          \<and> snd (getAppleMusicData v old)
              = Some \<lparr>songId = song_id song, cachedAt = clock v 341\<rparr>"
    by blast
qed

theorem new_track_liveness_witness:
  "snd (getAppleMusicData (laterWorld playingNow recentOne) None)
     = Some \<lparr>songId = ''T1'', cachedAt = 1704067300000\<rparr>
   \<and> success (fst (getAppleMusicData (laterWorld playingNow recentOne) None))
   \<and> isPlaying (fst (getAppleMusicData (laterWorld playingNow recentOne) None))
   \<and> timeStamp (fst (getAppleMusicData (laterWorld playingNow recentOne) None))
       = ''2024-01-01T00:01:40.250Z''
   \<and> snd (getAppleMusicData (laterWorld playingNow recentOne) (Some lastSeen))
       = Some lastSeen"
proof -
  have pre: "truthy (getAppleDeveloperToken (signedToken (laterWorld playingNow recentOne)))
      \<and> APPLE_MUSIC_USER_TOKEN (laterWorld playingNow recentOne) \<noteq> []
      \<and> appleReply (laterWorld playingNow recentOne) = Inr (okResponse [someSong])
      \<and> status (okResponse [someSong]) \<le> HTTP_NO_CONTENT
      \<and> hasBody (okResponse [someSong]) \<and> json (okResponse [someSong]) = Inr (someSong # [])
      \<and> (\<forall>st. (None :: AppleCacheState option) = Some st \<longrightarrow> songId st \<noteq> song_id someSong)
      \<and> \<bar>clock (laterWorld playingNow recentOne) 343\<bar> \<le> MAX_TIME"
    by (simp add: laterWorld_def movingClock_def sample_defs)
  have fresh: "snd (getAppleMusicData (laterWorld playingNow recentOne) None)
          = Some \<lparr>songId = song_id someSong,
                  cachedAt = clock (laterWorld playingNow recentOne) 341\<rparr>
        \<and> success (fst (getAppleMusicData (laterWorld playingNow recentOne) None))
        \<and> isPlaying (fst (getAppleMusicData (laterWorld playingNow recentOne) None))
        \<and> timeStamp (fst (getAppleMusicData (laterWorld playingNow recentOne) None))
            = isoString (clock (laterWorld playingNow recentOne) 343)"
    using new_track_liveness [of "laterWorld playingNow recentOne"
        "okResponse [someSong]" someSong "[]" None
        "laterWorld playingNow recentOne" "Some lastSeen"] pre
    by blast
  have "songId lastSeen = song_id someSong"
    by (simp add: sample_defs)
  then have "\<not> (\<exists>reply song others.
        appleReply (laterWorld playingNow recentOne) = Inr reply
        \<and> json reply = Inr (song # others)
        \<and> (\<forall>st. Some lastSeen = Some st \<longrightarrow> songId st \<noteq> song_id song)
        \<and> snd (getAppleMusicData (laterWorld playingNow recentOne) (Some lastSeen))
            = Some \<lparr>songId = song_id song,
                    cachedAt = clock (laterWorld playingNow recentOne) 341\<rparr>)"
    by (auto simp: laterWorld_def world_def okResponse_def)
  then have kept:
    "snd (getAppleMusicData (laterWorld playingNow recentOne) (Some lastSeen)) = Some lastSeen"
    using new_track_liveness [of "laterWorld playingNow recentOne"
        "okResponse [someSong]" someSong "[]" None
        "laterWorld playingNow recentOne" "Some lastSeen"]
    by blast
  have "song_id someSong = ''T1''"
      "clock (laterWorld playingNow recentOne) 341 = 1704067300000"
      "clock (laterWorld playingNow recentOne) 343 = 1704067300250"
    by (simp_all add: laterWorld_def movingClock_def sample_defs)
  with fresh kept show ?thesis
    by (simp add: isoString_jan1_moved)
qed

text \<open>
  The claim's single "now" does not exist when the clock moves between line 341 and
  line 343: the stored time is 1704067300000, whose ISO form ends in \<^verbatim>\<open>40.000Z\<close>, and the
  answer is stamped \<^verbatim>\<open>40.250Z\<close>.
\<close>

theorem new_track_now_counterexample:
  "snd (getAppleMusicData (laterWorld playingNow recentOne) None)
     = Some \<lparr>songId = ''T1'', cachedAt = 1704067300000\<rparr>
   \<and> isoString 1704067300000 = ''2024-01-01T00:01:40.000Z''
   \<and> timeStamp (fst (getAppleMusicData (laterWorld playingNow recentOne) None))
       = ''2024-01-01T00:01:40.250Z''
   \<and> ''2024-01-01T00:01:40.250Z'' \<noteq> ''2024-01-01T00:01:40.000Z''"
proof -
  have "getAppleMusicData (laterWorld playingNow recentOne) None
      = (appleAnswer True ''2024-01-01T00:01:40.250Z'',
         Some \<lparr>songId = ''T1'', cachedAt = 1704067300000\<rparr>)"
    by code_simp
  then show ?thesis
    by (simp add: isoString_jan1_later appleAnswer_def)
qed

text \<open>
  Claim C9. With the remembered song equal to the current one, a run leaves the state
  as it was, and a second run with the same replies and clock on the state the first
  one left gives the same answer and the same state.
\<close>

theorem liveness_idempotent:
  assumes "appleReply w = Inr response"
    and "json response = Inr (lastSong # rest)"
    and "songId st = song_id lastSong"
  shows "snd (getAppleMusicData w (Some st)) = Some st
         \<and> getAppleMusicData w (snd (getAppleMusicData w (Some st)))
             = getAppleMusicData w (Some st)"
proof -
  have "snd (getAppleMusicData w (Some st)) = Some st"
    using assms(1) inferLiveness_same [OF assms(2,3), of "clock w"]
    by (auto simp: getAppleMusicData_def split: sum.splits if_splits prod.splits)
  then show ?thesis by simp
qed

theorem liveness_idempotent_witness:
  "snd (getAppleMusicData (world playingNow recentOne 1704067300000) (Some lastSeen))
     = Some lastSeen
   \<and> getAppleMusicData (world playingNow recentOne 1704067300000)
       (snd (getAppleMusicData (world playingNow recentOne 1704067300000) (Some lastSeen)))
     = getAppleMusicData (world playingNow recentOne 1704067300000) (Some lastSeen)
   \<and> fst (getAppleMusicData (world playingNow recentOne 1704067300000) (Some lastSeen))
     = appleAnswer True ''2024-01-01T00:00:00.000Z''"
proof -
  have "snd (getAppleMusicData (world playingNow recentOne 1704067300000) (Some lastSeen))
          = Some lastSeen
        \<and> getAppleMusicData (world playingNow recentOne 1704067300000)
            (snd (getAppleMusicData (world playingNow recentOne 1704067300000)
                   (Some lastSeen)))
          = getAppleMusicData (world playingNow recentOne 1704067300000) (Some lastSeen)"
    by (rule liveness_idempotent [of _ "okResponse [someSong]" someSong "[]"])
       (simp_all add: sample_defs)
  moreover have
    "fst (getAppleMusicData (world playingNow recentOne 1704067300000) (Some lastSeen))
       = appleAnswer True ''2024-01-01T00:00:00.000Z''"
    by code_simp
  ultimately show ?thesis by blast
qed

section \<open>The result cache\<close>

lemma freshAnswer_returns:
  assumes "snd (getSpotifyData w) = Inr spotify"
  shows "freshAnswer w kv =
           (Inr \<lparr>body = reconcile (parseDate w) spotify (fst (getAppleMusicData w (APPLE_STATE_CACHE kv))),
                 cacheStatus = ''MISS''\<rparr>,
            \<lparr>RESULT_CACHE =
               (if success (reconcile (parseDate w) spotify (fst (getAppleMusicData w (APPLE_STATE_CACHE kv))))
                then Some \<lparr>cachedValue =
                             reconcile (parseDate w) spotify (fst (getAppleMusicData w (APPLE_STATE_CACHE kv))),
                           ttl = expirationTtl
                             (reconcile (parseDate w) spotify (fst (getAppleMusicData w (APPLE_STATE_CACHE kv))))\<rparr>
                else RESULT_CACHE kv),
             APPLE_STATE_CACHE = snd (getAppleMusicData w (APPLE_STATE_CACHE kv))\<rparr>)"
  using assms by (simp add: freshAnswer_def Let_def split: prod.splits)


lemma expirationTtl_examples:
  "expirationTtl (sample True False [] (Some 180000)) = 180"
  "expirationTtl (sample True False [] (Some 900000)) = 600"
  "expirationTtl (sample True False [] None) = 120"
  by (simp_all add: expirationTtl_def sample_def MAX_CACHE_TTL_def DEFAULT_CACHE_TTL_def)



lemma spotify_no_token2:
  "getSpotifyData ((world playingNow recentOne 1704067300000)
       \<lparr>tokenReply1 := Inr noToken, signedToken := Inl TypeError\<rparr>)
     = ([TokenRequest], Inr (tokenFailure 1704067300000))"
  by code_simp

lemma apple_no_token:
  "getAppleMusicData ((world playingNow recentOne 1704067300000)
       \<lparr>tokenReply1 := Inr noToken, signedToken := Inl TypeError\<rparr>) None
     = (failureResponse 1704067300000 ''Could not generate Apple Developer Token.'', None)"
  by code_simp



section \<open>Failures of the adapters\<close>

lemma failureResponse_shape:
  "\<not> success (failureResponse now message)" "\<not> isPlaying (failureResponse now message)"
  "bare (failureResponse now message)" "error (failureResponse now message) = Some message"
  "title (failureResponse now message) = None"
  "timeStamp (failureResponse now message) = isoString now"
  by (simp_all add: failureResponse_def bare_def)

lemma getNowPlaying_failed:
  assumes "getNowPlaying reply clk = Inr r" and "\<not> success r"
  shows "bare r \<and> error r \<noteq> None \<and> \<not> isPlaying r"
  using assms
  by (auto simp: getNowPlaying_def bindE_def failureResponse_shape
      split: sum.splits if_splits option.splits list.splits)

lemma getSpotifyRecentlyPlayed_failed:
  assumes "getSpotifyRecentlyPlayed parse reply clk = Inr r" and "\<not> success r"
  shows "bare r \<and> error r \<noteq> None \<and> \<not> isPlaying r"
  using assms
  by (auto simp: getSpotifyRecentlyPlayed_def bindE_def failureResponse_shape
      split: sum.splits if_splits option.splits list.splits)

lemma recentlyPlayedFallback_failed:
  assumes "snd (recentlyPlayedFallback w) = Inr r" and "\<not> success r"
  shows "bare r \<and> error r \<noteq> None \<and> \<not> isPlaying r"
  using assms getSpotifyRecentlyPlayed_failed [of "parseDate w" "recentReply w" "clock w" r]
  by (auto simp: recentlyPlayedFallback_def tokenFailure_def failureResponse_shape
      split: sum.splits if_splits)

lemma getSpotifyData_failed:
  assumes "snd (getSpotifyData w) = Inr r" and "\<not> success r"
  shows "bare r \<and> error r \<noteq> None \<and> \<not> isPlaying r"
  using assms getNowPlaying_failed [of "nowPlayingReply w" "clock w" r]
    recentlyPlayedFallback_failed [of w r]
  by (auto simp: getSpotifyData_def tokenFailure_def failureResponse_shape
      split: sum.splits if_splits)

lemma inferLiveness_success:
  assumes "inferLiveness response clk cached = (Inr r, st')"
  shows "success r"
  using assms
  by (auto simp: inferLiveness_def Let_def dest: formatAppleSong_success
      split: sum.splits list.splits option.splits if_splits)

lemma getAppleMusicData_failed:
  assumes "\<not> success (fst (getAppleMusicData w cached))"
  shows "bare (fst (getAppleMusicData w cached))
         \<and> error (fst (getAppleMusicData w cached)) \<noteq> None
         \<and> \<not> isPlaying (fst (getAppleMusicData w cached))"
  using assms
  by (auto simp: getAppleMusicData_def failureResponse_shape dest: inferLiveness_success
      split: sum.splits if_splits prod.splits)

lemma reconcile_cases: "reconcile parse a b = a \<or> reconcile parse a b = b"
  by (simp add: reconcile_def)

lemma fallback_unless_title:
  assumes "getAccessToken (tokenReply1 w) = Inr accessToken" and "truthy accessToken"
    and "getNowPlaying (nowPlayingReply w) (clock w) = Inr nowPlaying"
  shows "getSpotifyData w =
           (if truthy (title nowPlaying)
            then ([TokenRequest, NowPlayingRequest], Inr nowPlaying)
            else ([TokenRequest, NowPlayingRequest] @ fst (recentlyPlayedFallback w),
                  snd (recentlyPlayedFallback w)))"
  using assms by (simp add: getSpotifyData_def)

lemma recentlyPlayedFallback_calls:
  "fst (recentlyPlayedFallback w) =
     (if (\<exists>token. getAccessToken (tokenReply2 w) = Inr token \<and> truthy token)
      then [TokenRequest, RecentlyPlayedRequest] else [TokenRequest])"
  by (auto simp: recentlyPlayedFallback_def split: sum.splits)

lemma getAppleMusicData_failure_stamp:
  assumes "\<not> success (fst (getAppleMusicData w cached))"
  shows "timeStamp (fst (getAppleMusicData w cached))
           \<in> {isoString (clock w 287), isoString (clock w 303), isoString (clock w 350)}"
  using assms
  by (auto simp: getAppleMusicData_def failureResponse_shape dest: inferLiveness_success
      split: sum.splits if_splits prod.splits)

text \<open>
  Claim C6 fails for the Spotify adapter. \<^verbatim>\<open>getSpotifyData\<close> has no \<^verbatim>\<open>try\<close>, unlike
  \<^verbatim>\<open>getAppleMusicData\<close>: when the now-playing reply is a 200 whose \<^verbatim>\<open>item\<close> is
  \<^verbatim>\<open>null\<close>, reading \<^verbatim>\<open>song.item.name\<close> throws, the exception leaves the adapter and then
  the handler; so does a failed token request.
\<close>

theorem spotify_adapter_raises:
  "getSpotifyData (world noItem recentOne 1704067300000)
     = ([TokenRequest, NowPlayingRequest], Inl TypeError)
   \<and> fst (fetch None (world noItem recentOne 1704067300000) emptyStores) = Inl TypeError
   \<and> getSpotifyData ((world playingNow recentOne 1704067300000)
        \<lparr>tokenReply1 := Inl NetworkError\<rparr>)
     = ([TokenRequest], Inl NetworkError)"
  by code_simp

lemma getNowPlaying_empty:
  assumes "status response = HTTP_NO_CONTENT"
  shows "getNowPlaying (Inr response) clk = Inr nothingPlaying"
  using assms
  by (simp add: getNowPlaying_def bindE_def toISOString_def timeClip_def MAX_TIME_def
      isoString_epoch nothingPlaying_def)

lemma getNowPlaying_not_ok:
  assumes "status response \<noteq> HTTP_NO_CONTENT" and "\<not> ok response"
  shows "getNowPlaying (Inr response) clk
           = Inr (failureResponse (clk 195) (spotifyStatusError response))"
  using assms by (simp add: getNowPlaying_def bindE_def)

text \<open>
  Claim C7, as the code has it, for a request whose first token request gave a token.
  On status 204 \<^verbatim>\<open>getNowPlaying\<close> returns the answer "success, not playing, stamped with
  the epoch", which has no title, and the adapter goes on to request a token again and
  to query the recently played tracks: its answer is the outcome of that path. In
  general the adapter returns the now-playing answer when that has a non-empty title
  and takes the fallback path otherwise.
\<close>

theorem empty_status_falls_back:
  assumes "getAccessToken (tokenReply1 w) = Inr accessToken" and "truthy accessToken"
  shows "(nowPlayingReply w = Inr response \<and> status response = HTTP_NO_CONTENT
          \<longrightarrow> getNowPlaying (nowPlayingReply w) (clock w) = Inr nothingPlaying
              \<and> getSpotifyData w =
                  ([TokenRequest, NowPlayingRequest] @ fst (recentlyPlayedFallback w),
                   snd (recentlyPlayedFallback w)))
         \<and> (getNowPlaying (nowPlayingReply w) (clock w) = Inr nowPlaying
          \<longrightarrow> getSpotifyData w =
                (if truthy (title nowPlaying)
                 then ([TokenRequest, NowPlayingRequest], Inr nowPlaying)
                 else ([TokenRequest, NowPlayingRequest] @ fst (recentlyPlayedFallback w),
                       snd (recentlyPlayedFallback w))))"
proof (intro conjI impI)
  assume "getNowPlaying (nowPlayingReply w) (clock w) = Inr nowPlaying"
  then show "getSpotifyData w =
                (if truthy (title nowPlaying)
                 then ([TokenRequest, NowPlayingRequest], Inr nowPlaying)
                 else ([TokenRequest, NowPlayingRequest] @ fst (recentlyPlayedFallback w),
                       snd (recentlyPlayedFallback w)))"
    by (rule fallback_unless_title [OF assms])
next
  assume a: "nowPlayingReply w = Inr response \<and> status response = HTTP_NO_CONTENT"
  then show np: "getNowPlaying (nowPlayingReply w) (clock w) = Inr nothingPlaying"
    by (simp add: getNowPlaying_empty)
  have "\<not> truthy (title nothingPlaying)"
    by (simp add: nothingPlaying_def truthy_def)
  with fallback_unless_title [OF assms np]
  show "getSpotifyData w =
          ([TokenRequest, NowPlayingRequest] @ fst (recentlyPlayedFallback w),
           snd (recentlyPlayedFallback w))"
    by simp
qed

theorem empty_status_falls_back_witness:
  "status (statusResponse 204 ''No Content'' :: CurrentlyPlaying Response) = HTTP_NO_CONTENT
   \<and> getNowPlaying
        (nowPlayingReply (world (statusResponse 204 ''No Content'') recentOne 1704067300000))
        (clock (world (statusResponse 204 ''No Content'') recentOne 1704067300000))
      = Inr nothingPlaying
   \<and> getSpotifyData (world (statusResponse 204 ''No Content'') recentOne 1704067300000)
      = ([TokenRequest, NowPlayingRequest, TokenRequest, RecentlyPlayedRequest],
         Inr (spotifyAnswer False))
   \<and> truthy (title (spotifyAnswer True))
   \<and> getSpotifyData (world playingNow recentOne 1704067300000)
      = ([TokenRequest, NowPlayingRequest], Inr (spotifyAnswer True))"
proof -
  have fb: "recentlyPlayedFallback (world (statusResponse 204 ''No Content'') recentOne 1704067300000)
      = ([TokenRequest, RecentlyPlayedRequest], Inr (spotifyAnswer False))"
    by code_simp
  have token: "getAccessToken (tokenReply1 (world np recentOne 1704067300000))
      = Inr (Some ''token-1'')" "truthy (Some ''token-1'')" for np
    by (simp_all add: world_def okResponse_def getAccessToken_def bindE_def truthy_def)
  have empty: "nowPlayingReply (world (statusResponse 204 ''No Content'') recentOne 1704067300000)
        = Inr (statusResponse 204 ''No Content'')"
      "status (statusResponse 204 ''No Content'' :: CurrentlyPlaying Response) = HTTP_NO_CONTENT"
    by (simp_all add: world_def statusResponse_def HTTP_NO_CONTENT_def)
  have playing: "getNowPlaying (nowPlayingReply (world playingNow recentOne 1704067300000))
        (clock (world playingNow recentOne 1704067300000)) = Inr (spotifyAnswer True)"
    by code_simp
  have named: "truthy (title (spotifyAnswer True))"
    by (simp add: spotifyAnswer_def truthy_def)
  from empty_status_falls_back [OF token, of "statusResponse 204 ''No Content''"
      "statusResponse 204 ''No Content''" nothingPlaying] empty
  have one: "getNowPlaying
        (nowPlayingReply (world (statusResponse 204 ''No Content'') recentOne 1704067300000))
        (clock (world (statusResponse 204 ''No Content'') recentOne 1704067300000))
      = Inr nothingPlaying"
    and two: "getSpotifyData (world (statusResponse 204 ''No Content'') recentOne 1704067300000)
      = ([TokenRequest, NowPlayingRequest, TokenRequest, RecentlyPlayedRequest],
         Inr (spotifyAnswer False))"
    by (simp_all add: fb)
  from empty_status_falls_back [OF token, of playingNow playingNow "spotifyAnswer True"]
    playing named
  have three: "getSpotifyData (world playingNow recentOne 1704067300000)
      = ([TokenRequest, NowPlayingRequest], Inr (spotifyAnswer True))"
    by simp
  from empty(2) one two three named show ?thesis by (intro conjI)
qed

text \<open>
  The adapter's answer on 204 is therefore not the epoch-stamped answer: with a recently
  played track available it is that track, and the recently-played query was issued.
\<close>

theorem empty_status_counterexample:
  "status (statusResponse 204 ''No Content'' :: CurrentlyPlaying Response) = HTTP_NO_CONTENT
   \<and> getSpotifyData (world (statusResponse 204 ''No Content'') recentOne 1704067300000)
      = ([TokenRequest, NowPlayingRequest, TokenRequest, RecentlyPlayedRequest],
         Inr (spotifyAnswer False))
   \<and> spotifyAnswer False \<noteq> nothingPlaying"
proof -
  have "getSpotifyData (world (statusResponse 204 ''No Content'') recentOne 1704067300000)
      = ([TokenRequest, NowPlayingRequest, TokenRequest, RecentlyPlayedRequest],
         Inr (spotifyAnswer False))"
    by code_simp
  then show ?thesis
    by (simp add: statusResponse_def HTTP_NO_CONTENT_def spotifyAnswer_def nothingPlaying_def)
qed

text \<open>
  Claim C10, as the code has it, for a request whose first token request gave a token.
  The adapter returns the now-playing answer when that has a non-empty title and takes
  the fallback path otherwise. When the now-playing reply has a status that is neither
  204 nor a success, \<^verbatim>\<open>getNowPlaying\<close> returns a failure without a title, so the adapter
  takes the fallback path: it always requests a token again; with a token it queries
  the recently played tracks and its outcome is that query's outcome; without one it
  returns the token failure, and an exception of the token request leaves the adapter.
  None of these outcomes depends on the now-playing reply.
\<close>

theorem now_playing_failure_masked:
  assumes "getAccessToken (tokenReply1 w) = Inr accessToken" and "truthy accessToken"
  shows "(getNowPlaying (nowPlayingReply w) (clock w) = Inr nowPlaying
          \<longrightarrow> getSpotifyData w =
                (if truthy (title nowPlaying)
                 then ([TokenRequest, NowPlayingRequest], Inr nowPlaying)
                 else ([TokenRequest, NowPlayingRequest] @ fst (recentlyPlayedFallback w),
                       snd (recentlyPlayedFallback w))))
         \<and> (nowPlayingReply w = Inr response \<and> status response \<noteq> HTTP_NO_CONTENT
             \<and> \<not> ok response
          \<longrightarrow> getNowPlaying (nowPlayingReply w) (clock w)
                = Inr (failureResponse (clock w 195) (spotifyStatusError response))
              \<and> title (failureResponse (clock w 195) (spotifyStatusError response)) = None
              \<and> fst (getSpotifyData w) =
                  [TokenRequest, NowPlayingRequest]
                    @ (if (\<exists>token. getAccessToken (tokenReply2 w) = Inr token \<and> truthy token)
                       then [TokenRequest, RecentlyPlayedRequest] else [TokenRequest])
              \<and> snd (getSpotifyData w) =
                  (case getAccessToken (tokenReply2 w) of
                     Inl e \<Rightarrow> Inl e
                   | Inr token \<Rightarrow>
                       if truthy token
                       then getSpotifyRecentlyPlayed (parseDate w) (recentReply w) (clock w)
                       else Inr (tokenFailure (clock w 144))))"
proof -
  have general: "getNowPlaying (nowPlayingReply w) (clock w) = Inr nowPlaying
      \<longrightarrow> getSpotifyData w =
            (if truthy (title nowPlaying)
             then ([TokenRequest, NowPlayingRequest], Inr nowPlaying)
             else ([TokenRequest, NowPlayingRequest] @ fst (recentlyPlayedFallback w),
                   snd (recentlyPlayedFallback w)))"
    using fallback_unless_title [OF assms] by blast
  have masked: "getNowPlaying (nowPlayingReply w) (clock w)
          = Inr (failureResponse (clock w 195) (spotifyStatusError response))
        \<and> title (failureResponse (clock w 195) (spotifyStatusError response)) = None
        \<and> fst (getSpotifyData w) =
            [TokenRequest, NowPlayingRequest]
              @ (if (\<exists>token. getAccessToken (tokenReply2 w) = Inr token \<and> truthy token)
                 then [TokenRequest, RecentlyPlayedRequest] else [TokenRequest])
        \<and> snd (getSpotifyData w) =
            (case getAccessToken (tokenReply2 w) of
               Inl e \<Rightarrow> Inl e
             | Inr token \<Rightarrow>
                 if truthy token then getSpotifyRecentlyPlayed (parseDate w) (recentReply w) (clock w)
                 else Inr (tokenFailure (clock w 144)))"
    if a: "nowPlayingReply w = Inr response \<and> status response \<noteq> HTTP_NO_CONTENT
           \<and> \<not> ok response"
  proof -
    have np: "getNowPlaying (nowPlayingReply w) (clock w)
                = Inr (failureResponse (clock w 195) (spotifyStatusError response))"
      using a by (simp add: getNowPlaying_not_ok)
    have untitled: "title (failureResponse (clock w 195) (spotifyStatusError response)) = None"
      by (simp add: failureResponse_shape)
    then have "\<not> truthy (title (failureResponse (clock w 195) (spotifyStatusError response)))"
      by (simp add: truthy_def)
    with fallback_unless_title [OF assms np]
    have g: "getSpotifyData w =
               ([TokenRequest, NowPlayingRequest] @ fst (recentlyPlayedFallback w),
                snd (recentlyPlayedFallback w))"
      by simp
    have "snd (recentlyPlayedFallback w) =
            (case getAccessToken (tokenReply2 w) of
               Inl e \<Rightarrow> Inl e
             | Inr token \<Rightarrow>
                 if truthy token then getSpotifyRecentlyPlayed (parseDate w) (recentReply w) (clock w)
                 else Inr (tokenFailure (clock w 144)))"
      by (simp add: recentlyPlayedFallback_def split: sum.splits)
    with np untitled g show ?thesis
      by (simp add: recentlyPlayedFallback_calls)
  qed
  from general masked show ?thesis by blast
qed

theorem now_playing_failure_masked_witness:
  "status (statusResponse 500 ''Internal Server Error'' :: CurrentlyPlaying Response)
     \<noteq> HTTP_NO_CONTENT
   \<and> \<not> ok (statusResponse 500 ''Internal Server Error'' :: CurrentlyPlaying Response)
   \<and> getSpotifyData (world (statusResponse 500 ''Internal Server Error'') recentOne 1704067300000)
      = ([TokenRequest, NowPlayingRequest, TokenRequest, RecentlyPlayedRequest],
         Inr (spotifyAnswer False))"
proof -
  have second: "getAccessToken (tokenReply2
        (world (statusResponse 500 ''Internal Server Error'') recentOne 1704067300000))
      = Inr (Some ''token-2'')"
    by (simp add: world_def okResponse_def getAccessToken_def bindE_def)
  have recent: "getSpotifyRecentlyPlayed isoParse
        (recentReply (world (statusResponse 500 ''Internal Server Error'') recentOne 1704067300000))
        (clock (world (statusResponse 500 ''Internal Server Error'') recentOne 1704067300000))
      = Inr (spotifyAnswer False)"
    by code_simp
  have "fst (getSpotifyData
          (world (statusResponse 500 ''Internal Server Error'') recentOne 1704067300000))
        = [TokenRequest, NowPlayingRequest, TokenRequest, RecentlyPlayedRequest]
      \<and> snd (getSpotifyData
          (world (statusResponse 500 ''Internal Server Error'') recentOne 1704067300000))
        = Inr (spotifyAnswer False)"
  proof -
    have "getAccessToken (tokenReply1
          (world (statusResponse 500 ''Internal Server Error'') recentOne 1704067300000))
        = Inr (Some ''token-1'')"
      and "truthy (Some ''token-1'')"
      and "nowPlayingReply
          (world (statusResponse 500 ''Internal Server Error'') recentOne 1704067300000)
        = Inr (statusResponse 500 ''Internal Server Error'')"
      and "status (statusResponse 500 ''Internal Server Error'' :: CurrentlyPlaying Response)
        \<noteq> HTTP_NO_CONTENT"
      and "\<not> ok (statusResponse 500 ''Internal Server Error'' :: CurrentlyPlaying Response)"
      by (simp_all add: world_def okResponse_def statusResponse_def getAccessToken_def
          bindE_def truthy_def HTTP_NO_CONTENT_def ok_def)
    from now_playing_failure_masked [OF this(1,2),
        of nothingPlaying "statusResponse 500 ''Internal Server Error''"] this(3-5)
    show ?thesis
      by (simp add: second recent truthy_def parseDate_world)
  qed
  moreover have
    "status (statusResponse 500 ''Internal Server Error'' :: CurrentlyPlaying Response)
       \<noteq> HTTP_NO_CONTENT"
    "\<not> ok (statusResponse 500 ''Internal Server Error'' :: CurrentlyPlaying Response)"
    by (simp_all add: statusResponse_def HTTP_NO_CONTENT_def ok_def)
  ultimately show ?thesis
    by (simp add: prod_eq_iff)
qed

text \<open>
  The recently-played query is not always issued: when the second token request yields
  no token, the adapter answers with the token failure, which is not the outcome the
  query would have had.
\<close>

theorem now_playing_failure_counterexample:
  "status (statusResponse 500 ''Internal Server Error'' :: CurrentlyPlaying Response)
     \<noteq> HTTP_NO_CONTENT
   \<and> \<not> ok (statusResponse 500 ''Internal Server Error'' :: CurrentlyPlaying Response)
   \<and> getSpotifyData ((world (statusResponse 500 ''Internal Server Error'') recentOne
        1704067300000)\<lparr>tokenReply2 := Inr noToken\<rparr>)
      = ([TokenRequest, NowPlayingRequest, TokenRequest], Inr (tokenFailure 1704067300000))
   \<and> getSpotifyRecentlyPlayed isoParse
        (recentReply ((world (statusResponse 500 ''Internal Server Error'') recentOne
           1704067300000)\<lparr>tokenReply2 := Inr noToken\<rparr>))
        (\<lambda>line. 1704067300000)
      = Inr (spotifyAnswer False)
   \<and> tokenFailure 1704067300000 \<noteq> spotifyAnswer False"
proof -
  have "getSpotifyData ((world (statusResponse 500 ''Internal Server Error'') recentOne
        1704067300000)\<lparr>tokenReply2 := Inr noToken\<rparr>)
      = ([TokenRequest, NowPlayingRequest, TokenRequest], Inr (tokenFailure 1704067300000))"
    by code_simp
  moreover have "getSpotifyRecentlyPlayed isoParse
        (recentReply ((world (statusResponse 500 ''Internal Server Error'') recentOne
           1704067300000)\<lparr>tokenReply2 := Inr noToken\<rparr>))
        (\<lambda>line. 1704067300000)
      = Inr (spotifyAnswer False)"
    by code_simp
  ultimately show ?thesis
    by (simp add: statusResponse_def HTTP_NO_CONTENT_def ok_def tokenFailure_def
        failureResponse_def spotifyAnswer_def)
qed

text \<open>
  Claim C8. An answer with \<open>success = False\<close> returned by the Spotify adapter, by the
  Apple Music adapter, or chosen from the two by the handler on a fresh computation,
  has no source, duration, title, artist, album, image or link, and has an error
  message.
\<close>

theorem failure_answers_bare:
  "(snd (getSpotifyData w) = Inr r \<and> \<not> success r \<longrightarrow> bare r \<and> error r \<noteq> None)
   \<and> (\<not> success (fst (getAppleMusicData w cached))
        \<longrightarrow> bare (fst (getAppleMusicData w cached))
            \<and> error (fst (getAppleMusicData w cached)) \<noteq> None)
   \<and> (fst (fetch noCache w kv) = Inr reply \<and> cacheStatus reply = ''MISS''
        \<and> \<not> success (body reply)
        \<longrightarrow> bare (body reply) \<and> error (body reply) \<noteq> None)"
proof -
  have spotify: "snd (getSpotifyData w) = Inr r \<and> \<not> success r
      \<longrightarrow> bare r \<and> error r \<noteq> None"
    using getSpotifyData_failed by blast
  have apple: "\<not> success (fst (getAppleMusicData w cached))
      \<longrightarrow> bare (fst (getAppleMusicData w cached))
          \<and> error (fst (getAppleMusicData w cached)) \<noteq> None"
    using getAppleMusicData_failed by blast
  have chosen: "fst (fetch noCache w kv) = Inr reply \<and> cacheStatus reply = ''MISS''
        \<and> \<not> success (body reply)
      \<longrightarrow> bare (body reply) \<and> error (body reply) \<noteq> None"
  proof
    assume a: "fst (fetch noCache w kv) = Inr reply \<and> cacheStatus reply = ''MISS''
               \<and> \<not> success (body reply)"
    have "\<exists>stores. fst (freshAnswer w stores) = Inr reply"
    proof (cases "noCache = Some NO_CACHE_VALUE")
      case True
      with a show ?thesis by (auto simp: fetch_def)
    next
      case False
      with a show ?thesis
        by (cases "RESULT_CACHE kv") (auto simp: fetch_def)
    qed
    then obtain stores where f: "fst (freshAnswer w stores) = Inr reply" ..
    then obtain spotify where sp: "snd (getSpotifyData w) = Inr spotify"
      by (cases "snd (getSpotifyData w)")
         (auto simp: freshAnswer_def Let_def split: prod.splits)
    from f freshAnswer_returns [OF sp, of stores]
    have b: "body reply
               = reconcile (parseDate w) spotify (fst (getAppleMusicData w (APPLE_STATE_CACHE stores)))"
      by auto
    from reconcile_cases [of "parseDate w" spotify
        "fst (getAppleMusicData w (APPLE_STATE_CACHE stores))"]
    show "bare (body reply) \<and> error (body reply) \<noteq> None"
    proof
      assume "reconcile (parseDate w) spotify (fst (getAppleMusicData w (APPLE_STATE_CACHE stores)))
                = spotify"
      with a b sp getSpotifyData_failed [of w spotify] show ?thesis by simp
    next
      assume "reconcile (parseDate w) spotify (fst (getAppleMusicData w (APPLE_STATE_CACHE stores)))
                = fst (getAppleMusicData w (APPLE_STATE_CACHE stores))"
      with a b getAppleMusicData_failed [of w "APPLE_STATE_CACHE stores"]
      show ?thesis by simp
    qed
  qed
  from spotify apple chosen show ?thesis by (intro conjI)
qed

theorem failure_answers_bare_witness:
  "snd (getSpotifyData ((world playingNow recentOne 1704067300000)
          \<lparr>tokenReply1 := Inr noToken, signedToken := Inl TypeError\<rparr>))
     = Inr (tokenFailure 1704067300000)
   \<and> \<not> success (tokenFailure 1704067300000)
   \<and> bare (tokenFailure 1704067300000) \<and> error (tokenFailure 1704067300000) \<noteq> None
   \<and> \<not> success (fst (getAppleMusicData ((world playingNow recentOne 1704067300000)
          \<lparr>tokenReply1 := Inr noToken, signedToken := Inl TypeError\<rparr>) None))
   \<and> bare (fst (getAppleMusicData ((world playingNow recentOne 1704067300000)
          \<lparr>tokenReply1 := Inr noToken, signedToken := Inl TypeError\<rparr>) None))
   \<and> fst (fetch None ((world playingNow recentOne 1704067300000)
          \<lparr>tokenReply1 := Inr noToken, signedToken := Inl TypeError\<rparr>) emptyStores)
     = Inr \<lparr>body = tokenFailure 1704067300000, cacheStatus = ''MISS''\<rparr>"
proof -
  have sp: "snd (getSpotifyData ((world playingNow recentOne 1704067300000)
          \<lparr>tokenReply1 := Inr noToken, signedToken := Inl TypeError\<rparr>))
     = Inr (tokenFailure 1704067300000)"
    by (simp add: spotify_no_token2)
  have f: "\<not> success (tokenFailure 1704067300000)"
    by (simp add: tokenFailure_def failureResponse_shape)
  have ap: "\<not> success (fst (getAppleMusicData ((world playingNow recentOne 1704067300000)
          \<lparr>tokenReply1 := Inr noToken, signedToken := Inl TypeError\<rparr>) None))"
    by (simp add: apple_no_token failureResponse_shape)
  have fe: "fst (fetch None ((world playingNow recentOne 1704067300000)
          \<lparr>tokenReply1 := Inr noToken, signedToken := Inl TypeError\<rparr>) emptyStores)
     = Inr \<lparr>body = tokenFailure 1704067300000, cacheStatus = ''MISS''\<rparr>"
    by code_simp
  from failure_answers_bare [of "(world playingNow recentOne 1704067300000)
          \<lparr>tokenReply1 := Inr noToken, signedToken := Inl TypeError\<rparr>"
        "tokenFailure 1704067300000" None None emptyStores
        "\<lparr>body = tokenFailure 1704067300000, cacheStatus = ''MISS''\<rparr>"] sp f ap fe
  show ?thesis by simp
qed

end
